theory Spec2Isabelle
  imports Complex_Main
begin

section \<open>Numbers and log entries\<close>

text \<open>
  The tracker (component \<open>QigongCalculator\<close>) keeps a daily log, a day counter and a
  running energy value in React state. JavaScript numbers are modelled by exact
  real numbers (\<^typ>\<open>real\<close>); day numbers, minute counts, second counts and clock readings,
  which are always integral in the component, by \<^typ>\<open>int\<close>.

  A field of a log entry that the code sets to \<open>null\<close>, or leaves out of the object
  literal altogether, keeps that distinction.
\<close>

datatype field = Undefined | Null | Num real

record entry =
  day :: int
  energy :: real
  practice :: bool
  minutes :: int
  gain :: field
  loss :: field
  growthFactor :: field

text \<open>
  \<open>parseFloat(x.toFixed(f))\<close>: the decimal with \<open>f\<close> fraction digits closest to
  \<open>x\<close>, the larger magnitude on a tie; from \<open>10^21\<close> on \<open>toFixed\<close> prints the number
  itself.
\<close>

definition toFixed :: "nat \<Rightarrow> real \<Rightarrow> real" where
  "toFixed f x =
     (if 10 ^ 21 \<le> \<bar>x\<bar> then x
      else sgn x * of_int \<lfloor>\<bar>x\<bar> * 10 ^ f + 1 / 2\<rfloor> / 10 ^ f)"

text \<open>\<open>Math.round\<close>: the closest integer, the larger one on a tie.\<close>

definition Math_round :: "real \<Rightarrow> int" where
  "Math_round x = \<lfloor>x + 1 / 2\<rfloor>"

definition dailyEnergyLoss :: real where
  "dailyEnergyLoss = 1 / 10"

definition calculateGrowthFactor :: "real \<Rightarrow> real" where
  "calculateGrowthFactor mins =
     (let baseValue = 995776 / 1000000;
          minuteMultiplier = 1418 / 1000000
      in baseValue + mins * minuteMultiplier)"

section \<open>Component state\<close>

text \<open>
  The \<open>useState\<close> cells of the component. \<open>startTime\<close> is \<open>null\<close> or a clock reading
  in milliseconds. Each handler is modelled as one atomic step from the state it reads to
  the state its setter calls leave behind. The interval handle \<open>intervalRef\<close> only
  drives the display tick and is not part of the model.
\<close>

record state =
  dailyLog :: "entry list"
  currentDay :: int
  currentEnergy :: real
  isPracticing :: bool
  startTime :: "int option"
  elapsedTime :: int
  accumulatedSecondsToday :: int
  isLoading :: bool
  editingDay :: "int option"

definition initial_state :: state where
  "initial_state =
     \<lparr>dailyLog = [], currentDay = 1, currentEnergy = 1, isPracticing = False,
      startTime = None, elapsedTime = 0, accumulatedSecondsToday = 0,
      isLoading = True, editingDay = None\<rparr>"

text \<open>
  What a call to the storage client comes back with: a result object without error,
  a result object with an error, or a thrown exception.
\<close>

datatype 'a db_reply = DbData 'a | DbError | DbThrow

text \<open>\<open>!startTime\<close> holds for \<open>null\<close> and for the number 0.\<close>

definition truthy :: "int option \<Rightarrow> bool" where
  "truthy t = (case t of None \<Rightarrow> False | Some v \<Rightarrow> v \<noteq> 0)"

text \<open>\<open>Array.prototype.findIndex\<close>, with \<open>None\<close> for -1.\<close>

primrec findIndex :: "('a \<Rightarrow> bool) \<Rightarrow> 'a list \<Rightarrow> nat option" where
  "findIndex P [] = None"
| "findIndex P (x # xs) =
     (if P x then Some 0 else map_option Suc (findIndex P xs))"


section \<open>Loading and resetting\<close>

text \<open>
  The mount effect \<open>fetchLog\<close>. The query asks the table for its rows ordered by
  ascending \<open>day\<close>; the reply carries the rows of the table.
\<close>

definition fetchLog :: "entry list db_reply \<Rightarrow> state \<Rightarrow> state" where
  "fetchLog reply s =
     (case reply of
        DbData rows \<Rightarrow>
          (let fetchedLog = sort_key day rows in
           if fetchedLog \<noteq> [] then
             (let lastLog = last fetchedLog in
              s\<lparr>dailyLog := fetchedLog, currentEnergy := energy lastLog,
                currentDay := day lastLog + 1, isLoading := False\<rparr>)
           else s\<lparr>dailyLog := [], currentDay := 1, currentEnergy := 1, isLoading := False\<rparr>)
      | _ \<Rightarrow> s\<lparr>dailyLog := [], currentDay := 1, currentEnergy := 1, isLoading := False\<rparr>)"

text \<open>
  \<open>resetSimulation\<close>: \<open>confirmed\<close> is the answer to the confirmation dialog, the reply
  that of the delete call.
\<close>

definition resetSimulation :: "bool \<Rightarrow> unit db_reply \<Rightarrow> state \<Rightarrow> state" where
  "resetSimulation confirmed reply s =
     (if \<not> confirmed then s
      else case reply of
        DbData _ \<Rightarrow>
          s\<lparr>isLoading := False, dailyLog := [], currentDay := 1, currentEnergy := 1,
            isPracticing := False, startTime := None, elapsedTime := 0,
            accumulatedSecondsToday := 0\<rparr>
      | _ \<Rightarrow> s\<lparr>isLoading := False\<rparr>)"

section \<open>The practice timer\<close>


definition handleStartPractice :: "int \<Rightarrow> state \<Rightarrow> state" where
  "handleStartPractice now s =
     (if isPracticing s then s
      else s\<lparr>startTime := Some (now - elapsedTime s * 1000), isPracticing := True\<rparr>)"

text \<open>
  \<open>handleEndPractice\<close>. The bindings \<open>previousDayEnergy\<close>, \<open>startingEnergyForToday\<close>,
  \<open>startEnergy\<close> and \<open>previousEnergyLevel\<close> of the source are never read and are left
  out. The upsert follows the state updates and both of its failure branches end in an
  empty \<open>catch\<close>, so the reply does not reach the state.
\<close>

definition handleEndPractice :: "int \<Rightarrow> unit db_reply \<Rightarrow> state \<Rightarrow> state" where
  "handleEndPractice now reply s =
     (if \<not> isPracticing s \<or> \<not> truthy (startTime s) then s
      else
        let endTime = now;
            currentIntervalSeconds = (endTime - the (startTime s)) div 1000;
            newAccumulatedSeconds = accumulatedSecondsToday s + currentIntervalSeconds;
            totalMinutesToday = max 1 (Math_round (of_int newAccumulatedSeconds / 60));
            growthFactor = calculateGrowthFactor (of_int totalMinutesToday);
            startOfDayEnergy =
              (case find (\<lambda>l. day l = currentDay s - 1) (dailyLog s) of
                 Some l \<Rightarrow> energy l | None \<Rightarrow> 1);
            newTotalEnergyToday = startOfDayEnergy * growthFactor;
            totalGainToday = newTotalEnergyToday - startOfDayEnergy;
            logEntryData =
              \<lparr>day = currentDay s, energy = toFixed 2 newTotalEnergyToday, practice = True,
               minutes = totalMinutesToday, gain = Num (toFixed 2 totalGainToday),
               loss = Null, growthFactor = Num (toFixed 6 growthFactor)\<rparr>;
            updatedLog =
              (case findIndex (\<lambda>l. day l = currentDay s) (dailyLog s) of
                 Some logIndex \<Rightarrow> (dailyLog s)[logIndex := logEntryData]
               | None \<Rightarrow> dailyLog s @ [logEntryData])
        in s\<lparr>currentEnergy := newTotalEnergyToday,
             accumulatedSecondsToday := newAccumulatedSeconds,
             dailyLog := updatedLog,
             isPracticing := False, startTime := None, elapsedTime := 0\<rparr>)"

section \<open>Skipping and advancing\<close>

text \<open>
  \<open>logSkippedDay\<close>. The insert follows the state updates and its failure branches end
  in an empty \<open>catch\<close>.
\<close>

definition logSkippedDay :: "unit db_reply \<Rightarrow> state \<Rightarrow> state" where
  "logSkippedDay reply s =
     (if isPracticing s then s
      else if accumulatedSecondsToday s > 0 then s
      else
        let energyLoss = currentEnergy s * dailyEnergyLoss;
            newEnergy = currentEnergy s - energyLoss;
            skipLogData =
              \<lparr>day = currentDay s, energy = toFixed 2 newEnergy, practice = False,
               minutes = 0, gain = Null, loss = Num (toFixed 2 energyLoss),
               growthFactor = Null\<rparr>
        in s\<lparr>dailyLog := dailyLog s @ [skipLogData], currentEnergy := newEnergy,
             currentDay := currentDay s + 1,
             isPracticing := False, startTime := None, elapsedTime := 0,
             accumulatedSecondsToday := 0\<rparr>)"

definition advanceToNextDay :: "state \<Rightarrow> state" where
  "advanceToNextDay s =
     (if isPracticing s then s
      else
        let todayLogExists = (\<exists>l \<in> set (dailyLog s). day l = currentDay s);
            s1 =
              (if \<not> todayLogExists then
                 let energyLoss = currentEnergy s * dailyEnergyLoss;
                     newEnergy = currentEnergy s - energyLoss;
                     skipLog =
                       \<lparr>day = currentDay s, energy = toFixed 2 newEnergy, practice = False,
                        minutes = 0, gain = Undefined, loss = Num (toFixed 2 energyLoss),
                        growthFactor = Undefined\<rparr>
                 in s\<lparr>dailyLog := dailyLog s @ [skipLog], currentEnergy := newEnergy\<rparr>
               else s)
        in s1\<lparr>currentDay := currentDay s + 1,
              isPracticing := False, startTime := None, elapsedTime := 0,
              accumulatedSecondsToday := 0\<rparr>)"

section \<open>Editing a past day\<close>

text \<open>
  The body of the loop of \<open>recalculateEnergyFromDay\<close>: the entry \<open>currentEntry\<close> is
  recomputed from the energy at the start of its day.
\<close>

definition recalc_entry :: "real \<Rightarrow> entry \<Rightarrow> entry" where
  "recalc_entry startEnergyForDay currentEntry =
     (if practice currentEntry then
        let growthFactor = calculateGrowthFactor (of_int (minutes currentEntry));
            newEnergy = startEnergyForDay * growthFactor;
            energyGain = newEnergy - startEnergyForDay
        in currentEntry\<lparr>energy := toFixed 2 newEnergy, gain := Num (toFixed 2 energyGain),
             growthFactor := Num (toFixed 6 growthFactor), loss := Null\<rparr>
      else
        let energyLoss = startEnergyForDay * dailyEnergyLoss;
            newEnergy = startEnergyForDay - energyLoss
        in currentEntry\<lparr>energy := toFixed 2 newEnergy, loss := Num (toFixed 2 energyLoss),
             gain := Null, growthFactor := Null\<rparr>)"









section \<open>Sequences of operations\<close>




section \<open>Recomputation by recursion on the suffix\<close>

text \<open>
  The entries of a suffix recomputed one after the other, each from the energy the one
  before it has just been given. The loop of \<open>recalculateEnergyFromDay\<close> is shown below
  to compute this on the suffix it walks.
\<close>

fun recalc_chain :: "real \<Rightarrow> entry list \<Rightarrow> entry list" where
  "recalc_chain prev [] = []"
| "recalc_chain prev (e # es) =
     recalc_entry prev e # recalc_chain (energy (recalc_entry prev e)) es"

text \<open>The log a recomputation from index \<open>k\<close> arrives at.\<close>

definition recomputed :: "nat \<Rightarrow> entry list \<Rightarrow> entry list" where
  "recomputed k lg =
     take k lg @ recalc_chain (if k > 0 then energy (lg ! (k - 1)) else 1) (drop k lg)"

section \<open>State invariants\<close>




section \<open>Example states\<close>

text \<open>
  A freshly loaded empty tracker whose timer was started at clock reading 1000 ms; the
  same tracker after the timer was stopped 30 minutes later; after the day was then
  advanced; and after day 2 was skipped.
\<close>

definition timer_running :: state where
  "timer_running = handleStartPractice 1000 (fetchLog (DbData []) initial_state)"

definition day1_practised :: state where
  "day1_practised = handleEndPractice 1801000 (DbData ()) timer_running"

definition day2_begun :: state where
  "day2_begun = advanceToNextDay day1_practised"


section \<open>The growth factor\<close>

text \<open>
  C4 (as the code has it). The growth factor is the linear function
  \<open>0.995776 + minutes * 0.001418\<close>; it is strictly increasing over the non-negative
  minute values; its value is \<open>0.995776\<close> at 0, \<open>1.052496\<close> at 40 and \<open>1.165936\<close> at
  120 minutes.
\<close>

theorem calculateGrowthFactor_linear_increasing:
  assumes "0 \<le> a" and "a < b"
  shows "calculateGrowthFactor m = 995776 / 1000000 + m * (1418 / 1000000)
       \<and> calculateGrowthFactor a < calculateGrowthFactor b
       \<and> calculateGrowthFactor 0 = 995776 / 1000000
       \<and> calculateGrowthFactor 40 = 1052496 / 1000000
       \<and> calculateGrowthFactor 120 = 1165936 / 1000000"
  using assms by (simp add: calculateGrowthFactor_def)

theorem calculateGrowthFactor_linear_increasing_witness:
  "(0::real) \<le> 40 \<and> (40::real) < 120
   \<and> calculateGrowthFactor 90 = 995776 / 1000000 + 90 * (1418 / 1000000)
   \<and> calculateGrowthFactor 40 < calculateGrowthFactor 120
   \<and> calculateGrowthFactor 0 = 995776 / 1000000
   \<and> calculateGrowthFactor 40 = 1052496 / 1000000
   \<and> calculateGrowthFactor 120 = 1165936 / 1000000"
proof -
  have lo: "(0::real) \<le> 40" and up: "(40::real) < 120" by simp_all
  from calculateGrowthFactor_linear_increasing [OF lo up, of 90] lo up
  show ?thesis by simp
qed

text \<open>
  C4 (as stated) gives \<open>1.166936\<close> for 120 minutes. The code's value is \<open>1.165936\<close>,
  one thousandth away.
\<close>

theorem calculateGrowthFactor_120_counterexample:
  "calculateGrowthFactor 120 = 1165936 / 1000000
   \<and> \<bar>calculateGrowthFactor 120 - 1166936 / 1000000\<bar> = 1 / 1000"
  by (simp add: calculateGrowthFactor_def)

section \<open>Auxiliary facts\<close>





lemma find_update_first:
  "findIndex P xs = Some i \<Longrightarrow> P e \<Longrightarrow> find P (xs[i := e]) = Some e"
proof (induction xs arbitrary: i)
  case Nil
  then show ?case by simp
next
  case (Cons x xs)
  then show ?case by (cases "P x") auto
qed

lemma find_append_new:
  "findIndex P xs = None \<Longrightarrow> P e \<Longrightarrow> find P (xs @ [e]) = Some e"
  by (induction xs) (auto split: if_splits)


text \<open>The example states, evaluated.\<close>

lemma timer_running_eq:
  "timer_running =
     \<lparr>dailyLog = [], currentDay = 1, currentEnergy = 1, isPracticing = True,
      startTime = Some 1000, elapsedTime = 0, accumulatedSecondsToday = 0,
      isLoading = False, editingDay = None\<rparr>"
  by (simp add: timer_running_def handleStartPractice_def fetchLog_def initial_state_def)

lemma day1_practised_eq:
  "day1_practised =
     \<lparr>dailyLog =
        [\<lparr>day = 1, energy = 104 / 100, practice = True, minutes = 30,
          gain = Num (4 / 100), loss = Null, growthFactor = Num (1038316 / 1000000)\<rparr>],
      currentDay = 1, currentEnergy = 1038316 / 1000000, isPracticing = False,
      startTime = None, elapsedTime = 0, accumulatedSecondsToday = 1800,
      isLoading = False, editingDay = None\<rparr>"
  by (simp add: day1_practised_def timer_running_eq handleEndPractice_def truthy_def
      Math_round_def calculateGrowthFactor_def toFixed_def Let_def)

lemma day2_begun_eq:
  "day2_begun =
     \<lparr>dailyLog =
        [\<lparr>day = 1, energy = 104 / 100, practice = True, minutes = 30,
          gain = Num (4 / 100), loss = Null, growthFactor = Num (1038316 / 1000000)\<rparr>],
      currentDay = 2, currentEnergy = 1038316 / 1000000, isPracticing = False,
      startTime = None, elapsedTime = 0, accumulatedSecondsToday = 0,
      isLoading = False, editingDay = None\<rparr>"
  by (simp add: day2_begun_def day1_practised_eq advanceToNextDay_def)


section \<open>Logging a skipped day\<close>



section \<open>Ending a practice session\<close>

lemma handleEndPractice_find_today:
  assumes "isPracticing s" and "truthy (startTime s)"
  shows "\<exists>e. find (\<lambda>l. day l = currentDay s) (dailyLog (handleEndPractice now reply s)) = Some e
           \<and> practice e
           \<and> minutes e =
               max 1 (Math_round (of_int (accumulatedSecondsToday s
                                          + (now - the (startTime s)) div 1000) / 60))"
proof (cases "findIndex (\<lambda>l. day l = currentDay s) (dailyLog s)")
  case None
  from find_append_new [OF None] show ?thesis
    using assms None by (simp add: handleEndPractice_def Let_def)
next
  case (Some i)
  from find_update_first [OF Some] show ?thesis
    using assms Some by (simp add: handleEndPractice_def Let_def)
qed

text \<open>
  C10. Whenever the end-practice handler runs, the entry it leaves for the current day is
  a practice entry whose minutes are \<open>max(1, round(seconds / 60))\<close> of the seconds
  accumulated today, hence at least 1, even for a session of zero seconds; sessions of 1
  or 2 minutes still have a growth factor below 1.
\<close>

theorem handleEndPractice_minutes_at_least_one:
  assumes "isPracticing s" and "truthy (startTime s)"
  shows "\<exists>e. find (\<lambda>l. day l = currentDay s) (dailyLog (handleEndPractice now reply s)) = Some e
           \<and> practice e
           \<and> accumulatedSecondsToday (handleEndPractice now reply s) =
               accumulatedSecondsToday s + (now - the (startTime s)) div 1000
           \<and> minutes e =
               max 1 (Math_round
                 (of_int (accumulatedSecondsToday (handleEndPractice now reply s)) / 60))
           \<and> 1 \<le> minutes e
           \<and> calculateGrowthFactor 1 < 1 \<and> calculateGrowthFactor 2 < 1"
proof -
  have acc: "accumulatedSecondsToday (handleEndPractice now reply s) =
               accumulatedSecondsToday s + (now - the (startTime s)) div 1000"
    using assms by (simp add: handleEndPractice_def Let_def)
  have gf: "calculateGrowthFactor 1 < 1 \<and> calculateGrowthFactor 2 < 1"
    by (simp add: calculateGrowthFactor_def)
  from handleEndPractice_find_today [OF assms, of now reply]
  obtain e where e:
    "find (\<lambda>l. day l = currentDay s) (dailyLog (handleEndPractice now reply s)) = Some e"
    "practice e"
    "minutes e = max 1 (Math_round (of_int (accumulatedSecondsToday s
                                          + (now - the (startTime s)) div 1000) / 60))"
    by blast
  from e(3) have "1 \<le> minutes e" by simp
  with e acc gf show ?thesis by (simp del: of_int_add)
qed

theorem handleEndPractice_minutes_at_least_one_witness:
  "isPracticing timer_running \<and> truthy (startTime timer_running)
   \<and> (1000 - the (startTime timer_running)) div 1000 = 0
   \<and> map minutes (dailyLog (handleEndPractice 1000 DbError timer_running)) = [1]
   \<and> (\<exists>e. find (\<lambda>l. day l = currentDay timer_running)
              (dailyLog (handleEndPractice 1000 DbError timer_running)) = Some e
          \<and> accumulatedSecondsToday (handleEndPractice 1000 DbError timer_running) = 0
          \<and> 1 \<le> minutes e)"
proof -
  have a: "isPracticing timer_running" and b: "truthy (startTime timer_running)"
    by (simp_all add: timer_running_eq truthy_def)
  have c: "(1000 - the (startTime timer_running)) div 1000 = 0"
    and d: "accumulatedSecondsToday timer_running = 0"
    by (simp_all add: timer_running_eq)
  have m: "map minutes (dailyLog (handleEndPractice 1000 DbError timer_running)) = [1]"
    by (simp add: timer_running_eq handleEndPractice_def truthy_def Math_round_def Let_def)
  from handleEndPractice_minutes_at_least_one [OF a b, of 1000 DbError]
  have "\<exists>e. find (\<lambda>l. day l = currentDay timer_running)
              (dailyLog (handleEndPractice 1000 DbError timer_running)) = Some e
          \<and> accumulatedSecondsToday (handleEndPractice 1000 DbError timer_running) = 0
          \<and> 1 \<le> minutes e"
    unfolding c d by auto
  with a b c m show ?thesis by blast
qed




section \<open>Rejected edits\<close>



section \<open>Advancing the day\<close>





section \<open>The recomputation loop\<close>


lemma length_recalc_chain [simp]: "length (recalc_chain p es) = length es"
  by (induction es arbitrary: p) simp_all

lemma recalc_entry_keeps [simp]:
  "day (recalc_entry p e) = day e"
  "practice (recalc_entry p e) = practice e"
  "minutes (recalc_entry p e) = minutes e"
  by (simp_all add: recalc_entry_def Let_def)

lemma map_day_recalc_chain [simp]: "map day (recalc_chain p es) = map day es"
  by (induction es arbitrary: p) simp_all






lemma length_recomputed [simp]: "length (recomputed k lg) = length lg"
  by (simp add: recomputed_def)

lemma map_day_recomputed [simp]: "map day (recomputed k lg) = map day lg"
proof -
  have "map day (recomputed k lg) = map day (take k lg) @ map day (drop k lg)"
    by (simp add: recomputed_def)
  also have "\<dots> = map day lg"
    by (metis append_take_drop_id map_append)
  finally show ?thesis .
qed






section \<open>Editing a practice day's minutes\<close>








section \<open>Recomputing twice\<close>




section \<open>Failed saves\<close>


lemma resetSimulation_failed_delete:
  assumes "reply = DbError \<or> reply = DbThrow"
  shows "resetSimulation True reply s = s\<lparr>isLoading := False\<rparr>"
  using assms by (auto simp: resetSimulation_def)

text \<open>
  C8. Ending a practice session and logging a skipped day write the state before the
  save is attempted and swallow its failure: with a failing save the log has the new
  entry and the energy (and, for a skip, the day) has moved on.
\<close>

theorem failed_save_keeps_changes:
  "dailyLog timer_running = [] \<and> currentEnergy timer_running = 1
   \<and> dailyLog (handleEndPractice 1801000 DbError timer_running) =
        [\<lparr>day = 1, energy = 104 / 100, practice = True, minutes = 30,
          gain = Num (4 / 100), loss = Null, growthFactor = Num (1038316 / 1000000)\<rparr>]
   \<and> currentEnergy (handleEndPractice 1801000 DbError timer_running) = 1038316 / 1000000
   \<and> handleEndPractice 1801000 DbThrow timer_running
       = handleEndPractice 1801000 (DbData ()) timer_running
   \<and> length (dailyLog day2_begun) = 1 \<and> currentDay day2_begun = 2
   \<and> currentEnergy day2_begun = 1038316 / 1000000
   \<and> length (dailyLog (logSkippedDay DbError day2_begun)) = 2
   \<and> currentDay (logSkippedDay DbError day2_begun) = 3
   \<and> currentEnergy (logSkippedDay DbError day2_begun) = 9344844 / 10000000"
proof -
  have "handleEndPractice 1801000 DbThrow timer_running
       = handleEndPractice 1801000 (DbData ()) timer_running"
    by (simp add: handleEndPractice_def)
  moreover have "dailyLog timer_running = [] \<and> currentEnergy timer_running = 1
   \<and> dailyLog (handleEndPractice 1801000 DbError timer_running) =
        [\<lparr>day = 1, energy = 104 / 100, practice = True, minutes = 30,
          gain = Num (4 / 100), loss = Null, growthFactor = Num (1038316 / 1000000)\<rparr>]
   \<and> currentEnergy (handleEndPractice 1801000 DbError timer_running) = 1038316 / 1000000"
    by (simp add: timer_running_eq handleEndPractice_def truthy_def
        Math_round_def calculateGrowthFactor_def toFixed_def Let_def)
  moreover have "length (dailyLog day2_begun) = 1 \<and> currentDay day2_begun = 2
   \<and> currentEnergy day2_begun = 1038316 / 1000000
   \<and> length (dailyLog (logSkippedDay DbError day2_begun)) = 2
   \<and> currentDay (logSkippedDay DbError day2_begun) = 3
   \<and> currentEnergy (logSkippedDay DbError day2_begun) = 9344844 / 10000000"
    by (simp add: day2_begun_eq logSkippedDay_def dailyEnergyLoss_def Let_def)
  ultimately show ?thesis by (intro conjI) (elim conjE, assumption)+
qed

theorem failed_save_keeps_changes_witness:
  "isPracticing timer_running \<and> truthy (startTime timer_running)
   \<and> \<not> isPracticing day2_begun \<and> \<not> accumulatedSecondsToday day2_begun > 0
   \<and> dailyLog (handleEndPractice 1801000 DbError timer_running) \<noteq> dailyLog timer_running
   \<and> currentEnergy (handleEndPractice 1801000 DbError timer_running)
       \<noteq> currentEnergy timer_running
   \<and> length (dailyLog (logSkippedDay DbError day2_begun)) \<noteq> length (dailyLog day2_begun)
   \<and> currentDay (logSkippedDay DbError day2_begun) \<noteq> currentDay day2_begun
   \<and> currentEnergy (logSkippedDay DbError day2_begun) \<noteq> currentEnergy day2_begun"
proof -
  have a: "isPracticing timer_running" and b: "truthy (startTime timer_running)"
    by (simp_all add: timer_running_eq truthy_def)
  have c: "\<not> isPracticing day2_begun" and d: "\<not> accumulatedSecondsToday day2_begun > 0"
    by (simp_all add: day2_begun_eq)
  from failed_save_keeps_changes
  have "dailyLog (handleEndPractice 1801000 DbError timer_running) \<noteq> dailyLog timer_running
   \<and> currentEnergy (handleEndPractice 1801000 DbError timer_running)
       \<noteq> currentEnergy timer_running
   \<and> length (dailyLog (logSkippedDay DbError day2_begun)) \<noteq> length (dailyLog day2_begun)
   \<and> currentDay (logSkippedDay DbError day2_begun) \<noteq> currentDay day2_begun
   \<and> currentEnergy (logSkippedDay DbError day2_begun) \<noteq> currentEnergy day2_begun"
    by (elim conjE) simp
  with a b c d show ?thesis by (intro conjI) (elim conjE, assumption)+
qed

section \<open>The current energy and the last entry\<close>






























end
